theory Spec2Isabelle
  imports Complex_Main
begin

section \<open>Python and numpy primitives used by the notebook\<close>

text \<open>
  The notebook \<^verbatim>\<open>01_RNN_generator_solution.ipynb\<close> is a linear script over numpy arrays
  and a TensorFlow session. Arrays are lists (a 2-D array is a list of rows), Python
  integers are \<open>int\<close>, and every exception the notebook's own lines can raise is a value
  of \<open>error\<close>, returned on the left of a sum.

  Floating-point numbers are treated in two ways. In the dataset generator a float is a
  \<open>real\<close> and \<open>+\<close>, \<open>*\<close>, \<open>sin\<close> are the exact operations; the narrowing
  \<^verbatim>\<open>astype(np.float32)\<close> is kept as a function argument of which nothing is assumed.
  Everywhere else a float is a value of a type variable, and the arithmetic done on it
  (by numpy, by \<^verbatim>\<open>math\<close>, by the session) is an argument standing for the library:
  nothing is said there about rounding, overflow or \<^verbatim>\<open>nan\<close>.
\<close>

datatype error = IndexError | ValueError

text \<open>\<^verbatim>\<open>xs[i]\<close> on a Python list: an index below zero is counted from the end.\<close>

definition py_index :: "'a list \<Rightarrow> int \<Rightarrow> error + 'a" where
  "py_index xs i =
     (if 0 \<le> i \<and> i < int (length xs) then Inr (xs ! nat i)
      else if i < 0 \<and> - int (length xs) \<le> i then Inr (xs ! nat (int (length xs) + i))
      else Inl IndexError)"

text \<open>\<^verbatim>\<open>range(n)\<close>: empty when \<open>n\<close> is not positive.\<close>

definition py_range :: "int \<Rightarrow> nat list" where
  "py_range n = [0..<nat n]"


text \<open>
  An elementwise binary operation on two 1-D arrays, with numpy's broadcasting: equal
  lengths pair up, an array of length one is stretched, anything else raises
  \<^verbatim>\<open>ValueError\<close>.
\<close>

definition np_broadcast2 :: "('a \<Rightarrow> 'a \<Rightarrow> 'a) \<Rightarrow> 'a list \<Rightarrow> 'a list \<Rightarrow> error + 'a list" where
  "np_broadcast2 f xs ys =
     (if length xs = length ys then Inr (map2 f xs ys)
      else if length xs = 1 then Inr (map (f (hd xs)) ys)
      else if length ys = 1 then Inr (map (\<lambda>x. f x (hd ys)) xs)
      else Inl ValueError)"


section \<open>The fake dataset\<close>



section \<open>Hyperparameters\<close>

definition RNN_CELLSIZE :: nat where "RNN_CELLSIZE = 64"
definition NLAYERS :: nat where "NLAYERS = 2"
definition SEQLEN :: nat where "SEQLEN = 16"
definition BATCHSIZE :: nat where "BATCHSIZE = 32"
definition DROPOUT_PKEEP :: real where "DROPOUT_PKEEP = 0.7"

section \<open>The model definition\<close>

text \<open>
  TensorFlow 1.x is symbolic: \<^verbatim>\<open>model_rnn_fn\<close> computes nothing, it builds graph nodes.
  The nodes are terms; there is one constructor for each library call the notebook
  makes. What a node computes when a session runs it belongs to the library and is not
  defined here.
\<close>

datatype dtype = tf_float32

datatype tensor =
    Placeholder string dtype "nat option list option"
      \<comment> \<open>\<^verbatim>\<open>tf.placeholder(dtype, shape)\<close>; the string is the node's identity\<close>
  | Dim nat
      \<comment> \<open>an integer written in a shape\<close>
  | ShapeDim tensor nat
      \<comment> \<open>\<^verbatim>\<open>tf.shape(t)[i]\<close>\<close>
  | Mul tensor tensor
  | Reshape tensor "tensor list"
      \<comment> \<open>\<^verbatim>\<open>tf.reshape(t, shape)\<close>\<close>
  | DynamicRnnOutputs cell tensor tensor
      \<comment> \<open>first result of \<^verbatim>\<open>tf.nn.dynamic_rnn(cell, inputs, initial_state=state)\<close>\<close>
  | DynamicRnnState cell tensor tensor
      \<comment> \<open>second result of the same call\<close>
  | Dense tensor nat
      \<comment> \<open>\<^verbatim>\<open>tf.layers.dense(t, units)\<close>\<close>
  | SliceLastStep tensor
      \<comment> \<open>\<^verbatim>\<open>t[:,-1,:]\<close>\<close>
  | MeanSquaredError tensor tensor
      \<comment> \<open>\<^verbatim>\<open>tf.losses.mean_squared_error(a, b)\<close>, arguments in the order of the call\<close>
and cell =
    GRUCell nat
      \<comment> \<open>\<^verbatim>\<open>tf.nn.rnn_cell.GRUCell(num_units)\<close>\<close>
  | DropoutWrapper cell tensor
      \<comment> \<open>\<^verbatim>\<open>tf.nn.rnn_cell.DropoutWrapper(cell, output_keep_prob=p)\<close>\<close>
  | MultiRNNCell "cell list" bool
      \<comment> \<open>\<^verbatim>\<open>tf.nn.rnn_cell.MultiRNNCell(cells, state_is_tuple=b)\<close>\<close>

datatype optimizer = AdamOptimizer real
  \<comment> \<open>\<^verbatim>\<open>tf.train.AdamOptimizer(learning_rate=r)\<close>\<close>

datatype operation = Minimize optimizer tensor
  \<comment> \<open>\<^verbatim>\<open>optimizer.minimize(loss)\<close>\<close>

text \<open>
  \<^verbatim>\<open>
  def model_rnn_fn(features, Hin, labels, dropout_pkeep):
      X = features
      batchsize = tf.shape(X)[0]
      seqlen = tf.shape(X)[1]
      cells = [tf.nn.rnn_cell.GRUCell(RNN_CELLSIZE) for _ in range(NLAYERS)]
      # dropout useful between cell layers only: no output dropout on last cell
      dcells = [tf.nn.rnn_cell.DropoutWrapper(cell, output_keep_prob = dropout_pkeep) for cell in cells[:-1]]
      dcells.append(cells[-1])
      # a stacked RNN cell still works like an RNN cell
      cell = tf.nn.rnn_cell.MultiRNNCell(dcells, state_is_tuple=False)
      Yn, H = tf.nn.dynamic_rnn(cell, X, initial_state=Hin)
      Yn = tf.reshape(Yn, [batchsize*seqlen, RNN_CELLSIZE])
      Yr = tf.layers.dense(Yn, 1) # Yr [BATCHSIZE*SEQLEN, 1]
      Yr = tf.reshape(Yr, [batchsize, seqlen, 1]) # Yr [BATCHSIZE, SEQLEN, 1]
      Yout = Yr[:,-1,:] # Last output Yout [BATCHSIZE, 1]
      loss = tf.losses.mean_squared_error(Yr, labels) # labels[BATCHSIZE, SEQLEN, 1]
      optimizer = tf.train.AdamOptimizer(learning_rate=0.01)
      train_op = optimizer.minimize(loss)
      return Yout, H, loss, train_op
  \<close>
  The only line of its own that can raise is \<^verbatim>\<open>cells[-1]\<close>, on an empty list.
  Reassigned variables (\<^verbatim>\<open>Yn\<close>, \<^verbatim>\<open>Yr\<close>, \<^verbatim>\<open>dcells\<close>) get a numbered name for each
  assignment.
\<close>

definition model_rnn_fn ::
  "tensor \<Rightarrow> tensor \<Rightarrow> tensor \<Rightarrow> tensor \<Rightarrow> error + (tensor \<times> tensor \<times> tensor \<times> operation)" where
  "model_rnn_fn features Hin labels dropout_pkeep =
     (let X = features;
          batchsize = ShapeDim X 0;
          seqlen = ShapeDim X 1;
          cells = map (\<lambda>_. GRUCell RNN_CELLSIZE) (py_range (int NLAYERS));
          dcells1 = map (\<lambda>cell. DropoutWrapper cell dropout_pkeep) (butlast cells)
      in case py_index cells (- 1) of
           Inl e \<Rightarrow> Inl e
         | Inr last_cell \<Rightarrow>
             (let dcells2 = dcells1 @ [last_cell];
                  cell = MultiRNNCell dcells2 False;
                  Yn1 = DynamicRnnOutputs cell X Hin;
                  H = DynamicRnnState cell X Hin;
                  Yn2 = Reshape Yn1 [Mul batchsize seqlen, Dim RNN_CELLSIZE];
                  Yr1 = Dense Yn2 1;
                  Yr2 = Reshape Yr1 [batchsize, seqlen, Dim 1];
                  Yout = SliceLastStep Yr2;
                  loss = MeanSquaredError Yr2 labels;
                  optimizer = AdamOptimizer 0.01;
                  train_op = Minimize optimizer loss
              in Inr (Yout, H, loss, train_op)))"

text \<open>Reading a stacked cell: is a layer wrapped in dropout, and which cell is under the wrapper.\<close>

fun is_dropout :: "cell \<Rightarrow> bool" where
  "is_dropout (DropoutWrapper c p) = True"
| "is_dropout (GRUCell n) = False"
| "is_dropout (MultiRNNCell cs b) = False"

fun wrapped_cell :: "cell \<Rightarrow> cell" where
  "wrapped_cell (DropoutWrapper c p) = c"
| "wrapped_cell (GRUCell n) = GRUCell n"
| "wrapped_cell (MultiRNNCell cs b) = MultiRNNCell cs b"

section \<open>Instantiating the model\<close>

text \<open>
  \<^verbatim>\<open>
  Hin = tf.placeholder(tf.float32, [None, RNN_CELLSIZE * NLAYERS])
  samples = tf.placeholder(tf.float32, [None, None, 1]) # [BATCHSIZE, SEQLEN, 1]
  labels = tf.placeholder(tf.float32, [None, None, 1]) # [BATCHSIZE, SEQLEN, 1]
  dropout_pkeep = tf.placeholder(tf.float32)
  Yout, H, loss, train_op = model_rnn_fn(samples, Hin, labels, dropout_pkeep)
  \<close>
  These are globals of the notebook. The four results exist only when \<^verbatim>\<open>model_rnn_fn\<close>
  returned; \<open>instantiated_model\<close> says that it does.
\<close>

definition Hin :: tensor where
  "Hin = Placeholder ''Hin'' tf_float32 (Some [None, Some (RNN_CELLSIZE * NLAYERS)])"

definition samples :: tensor where
  "samples = Placeholder ''samples'' tf_float32 (Some [None, None, Some 1])"

definition labels :: tensor where
  "labels = Placeholder ''labels'' tf_float32 (Some [None, None, Some 1])"

definition dropout_pkeep :: tensor where
  "dropout_pkeep = Placeholder ''dropout_pkeep'' tf_float32 None"

definition instantiated_model :: "error + (tensor \<times> tensor \<times> tensor \<times> operation)" where
  "instantiated_model = model_rnn_fn samples Hin labels dropout_pkeep"

definition Yout :: tensor where
  "Yout = (case instantiated_model of Inr (y, h, l, t) \<Rightarrow> y)"

definition H :: tensor where
  "H = (case instantiated_model of Inr (y, h, l, t) \<Rightarrow> h)"

definition loss :: tensor where
  "loss = (case instantiated_model of Inr (y, h, l, t) \<Rightarrow> l)"

definition train_op :: operation where
  "train_op = (case instantiated_model of Inr (y, h, l, t) \<Rightarrow> t)"

section \<open>The session\<close>

text \<open>
  \<^verbatim>\<open>sess.run(fetches, feed_dict=feed)\<close> is the library executing the graph. The feed
  dictionaries of the notebook have the keys \<^verbatim>\<open>Hin\<close>, \<^verbatim>\<open>samples\<close>, \<^verbatim>\<open>dropout_pkeep\<close>
  and, in training only, \<^verbatim>\<open>labels\<close>: a record with an optional field. The values
  returned for the fetched tensors are a record as well; a field whose node was not
  fetched is never read.

  The library is an argument \<open>tf\<close>: from the session's variables (the weights), the
  fetches and the feed it gives the values and the variables afterwards. Nothing is
  assumed of it unless a theorem says so. The session is global mutable state: it is
  passed in and returned, and it keeps the list of the executions made so far, which is
  what the statements about "every execution" speak of.

  Array elements are of any type \<open>'a\<close> with a zero: inference does no arithmetic on them.
\<close>

record 'a feed_dict =
  feed_Hin :: "'a list list"
  feed_samples :: "'a list list list"
  feed_labels :: "'a list list list option"
  feed_dropout_pkeep :: real

datatype fetch = Fetch_tensor tensor | Fetch_op operation

record 'a fetched =
  val_Yout :: "'a list list"
  val_H :: "'a list list"
  val_loss :: 'a

record 'a execution =
  run_fetches :: "fetch list"
  run_feed :: "'a feed_dict"
  run_values :: "'a fetched"

record ('w, 'a) session =
  variables :: 'w
  executions :: "'a execution list"

type_synonym ('w, 'a) tensorflow = "'w \<Rightarrow> fetch list \<Rightarrow> 'a feed_dict \<Rightarrow> 'a fetched \<times> 'w"

definition sess_run ::
  "('w, 'a) tensorflow \<Rightarrow> ('w, 'a) session \<Rightarrow> fetch list \<Rightarrow> 'a feed_dict \<Rightarrow>
     'a fetched \<times> ('w, 'a) session" where
  "sess_run tf sess fetches feed =
     (case tf (variables sess) fetches feed of
        (vals, w) \<Rightarrow>
          (vals,
           \<lparr>variables = w,
            executions = executions sess @
              [\<lparr>run_fetches = fetches, run_feed = feed, run_values = vals\<rparr>]\<rparr>))"

section \<open>Inference\<close>

text \<open>The numpy calls of \<^verbatim>\<open>prediction_run\<close>, each at the ranks it is used at.\<close>

definition np_zeros2 :: "nat \<Rightarrow> nat \<Rightarrow> 'a::zero list list" where
  "np_zeros2 rows cols = replicate rows (replicate cols 0)"

text \<open>\<^verbatim>\<open>np.reshape(a, [1, n, 1])\<close> of a 1-D array: \<^verbatim>\<open>ValueError\<close> unless it has \<open>n\<close> elements.\<close>

definition np_reshape_1_n_1 :: "'a list \<Rightarrow> nat \<Rightarrow> error + 'a list list list" where
  "np_reshape_1_n_1 a n = (if length a = n then Inr [map (\<lambda>v. [v]) a] else Inl ValueError)"

text \<open>\<^verbatim>\<open>np.reshape(a, [1, 1, 1])\<close> of a 2-D array: \<^verbatim>\<open>ValueError\<close> unless it has one element.\<close>

definition np_reshape_1_1_1 :: "'a list list \<Rightarrow> error + 'a list list list" where
  "np_reshape_1_1_1 a = (case concat a of [v] \<Rightarrow> Inr [[[v]]] | _ \<Rightarrow> Inl ValueError)"

text \<open>\<^verbatim>\<open>a[0,0]\<close> of a 2-D array.\<close>

definition np_item_0_0 :: "'a list list \<Rightarrow> error + 'a" where
  "np_item_0_0 a =
     (case a of
        [] \<Rightarrow> Inl IndexError
      | row # _ \<Rightarrow> (case row of [] \<Rightarrow> Inl IndexError | v # _ \<Rightarrow> Inr v))"

text \<open>
  \<^verbatim>\<open>
  def prediction_run(prime_data, run_length):
      H_ = np.zeros([1, RNN_CELLSIZE * NLAYERS]) # zero state initially
      Yout_ = np.zeros([1, 1])
      data_len = prime_data.shape[0]

      # prime the state from data
      if data_len > 0:
          Yin = np.array(prime_data)
          Yin = np.reshape(Yin, [1, data_len, 1]) # reshape as one sequence
          feed = {Hin: H_, samples: Yin, dropout_pkeep: 1.0} # no dropout during inference
          Yout_, H_ = sess.run([Yout, H], feed_dict=feed)

      # run prediction
      # To generate a sequence, run a trained cell in a loop passing as input and input state
      # respectively the output and output state from the previous iteration.
      results = []
      for i in range(run_length):
          Yout_ = np.reshape(Yout_, [1, 1, 1]) # batch of a single sequence of a single vector with one element
          feed = {Hin: H_, samples: Yout_, dropout_pkeep: 1.0} # no dropout during inference
          Yout_, H_ = sess.run([Yout, H], feed_dict=feed)
          results.append(Yout_[0,0])

      return np.array(results)
  \<close>
  \<^verbatim>\<open>prime_data\<close> is a 1-D array. The Python names \<^verbatim>\<open>Yout_\<close> and \<^verbatim>\<open>H_\<close> are written
  \<open>Yout_v\<close> and \<open>H_v\<close>. The loop is a recursion over the list \<^verbatim>\<open>range(run_length)\<close>
  carrying the variables the body assigns.
\<close>

fun prediction_loop ::
  "('w, 'a) tensorflow \<Rightarrow> nat list \<Rightarrow> 'a list list \<Rightarrow> 'a list list \<Rightarrow> 'a list \<Rightarrow>
     ('w, 'a) session \<Rightarrow> error + ('a list \<times> ('w, 'a) session)" where
  "prediction_loop tf [] Yout_v H_v results sess = Inr (results, sess)"
| "prediction_loop tf (i # rest) Yout_v H_v results sess =
     (case np_reshape_1_1_1 Yout_v of
        Inl e \<Rightarrow> Inl e
      | Inr Yout_in \<Rightarrow>
          (case sess_run tf sess [Fetch_tensor Yout, Fetch_tensor H]
                  \<lparr>feed_Hin = H_v, feed_samples = Yout_in, feed_labels = None,
                   feed_dropout_pkeep = 1.0\<rparr> of
             (vals, sess1) \<Rightarrow>
               (case np_item_0_0 (val_Yout vals) of
                  Inl e \<Rightarrow> Inl e
                | Inr y \<Rightarrow>
                    prediction_loop tf rest (val_Yout vals) (val_H vals) (results @ [y]) sess1)))"

definition prediction_run ::
  "('w, 'a::zero) tensorflow \<Rightarrow> ('w, 'a) session \<Rightarrow> 'a list \<Rightarrow> int \<Rightarrow>
     error + ('a list \<times> ('w, 'a) session)" where
  "prediction_run tf sess prime_data run_length =
     (let H_0 = np_zeros2 1 (RNN_CELLSIZE * NLAYERS);
          Yout_0 = np_zeros2 1 1;
          data_len = length prime_data
      in case (if data_len > 0 then
                 (case np_reshape_1_n_1 prime_data data_len of
                    Inl e \<Rightarrow> Inl e
                  | Inr Yin \<Rightarrow>
                      (case sess_run tf sess [Fetch_tensor Yout, Fetch_tensor H]
                              \<lparr>feed_Hin = H_0, feed_samples = Yin, feed_labels = None,
                               feed_dropout_pkeep = 1.0\<rparr> of
                         (vals, sess1) \<Rightarrow> Inr (val_Yout vals, val_H vals, sess1)))
               else Inr (Yout_0, H_0, sess)) of
           Inl e \<Rightarrow> Inl e
         | Inr (Yout_v, H_v, sess1) \<Rightarrow>
             prediction_loop tf (py_range run_length) Yout_v H_v [] sess1)"

section \<open>The training loop\<close>

text \<open>
  \<^verbatim>\<open>
  H_ = Hzero            # np.zeros([BATCHSIZE, RNN_CELLSIZE * NLAYERS])
  losses = []
  indices = []
  for i, (next_samples, next_labels, epoch) in enumerate(utils_batching.rnn_minibatch_sequencer(data, BATCHSIZE, SEQLEN, nb_epochs=NB_EPOCHS)):
      next_samples = np.expand_dims(next_samples, axis=2) # model wants 3D inputs [BATCHSIZE, SEQLEN, 1]
      next_labels = np.expand_dims(next_labels, axis=2)
      feed = {Hin: H_, samples: next_samples, labels: next_labels, dropout_pkeep: DROPOUT_PKEEP}
      Yout_, H_, loss_, _ = sess.run([Yout, H, loss, train_op], feed_dict=feed)
      # print progress
      if i%100 == 0:
          print("epoch " + str(epoch) + ", batch " + str(i) + ", loss=" + str(np.mean(loss_)))
      if i%10 == 0:
          losses.append(np.mean(loss_))
          indices.append(i)
  \<close>
  The module \<^verbatim>\<open>utils_batching\<close> is not part of the sources at hand, so what its
  generator yields is an argument: the list of the triples (samples, labels, epoch), in
  the order they are yielded. \<^verbatim>\<open>np.mean\<close> of the scalar loss is the loss. The printed
  lines are kept as triples (epoch, batch, loss).
\<close>

definition np_expand_dims_2 :: "'a list list \<Rightarrow> 'a list list list" where
  "np_expand_dims_2 a = map (map (\<lambda>v. [v])) a"

record 'a training =
  train_H :: "'a list list"
  losses :: "'a list"
  indices :: "nat list"
  printed :: "(int \<times> nat \<times> 'a) list"

definition py_enumerate :: "'b list \<Rightarrow> (nat \<times> 'b) list" where
  "py_enumerate xs = zip [0..<length xs] xs"

fun training_steps ::
  "('w, 'a) tensorflow \<Rightarrow> (nat \<times> 'a list list \<times> 'a list list \<times> int) list \<Rightarrow>
     'a training \<Rightarrow> ('w, 'a) session \<Rightarrow> 'a training \<times> ('w, 'a) session" where
  "training_steps tf [] st sess = (st, sess)"
| "training_steps tf ((i, next_samples, next_labels, epoch) # rest) st sess =
     (let next_samples3 = np_expand_dims_2 next_samples;
          next_labels3 = np_expand_dims_2 next_labels;
          feed = \<lparr>feed_Hin = train_H st, feed_samples = next_samples3,
                  feed_labels = Some next_labels3, feed_dropout_pkeep = DROPOUT_PKEEP\<rparr>
      in case sess_run tf sess
                [Fetch_tensor Yout, Fetch_tensor H, Fetch_tensor loss, Fetch_op train_op] feed of
           (vals, sess1) \<Rightarrow>
             (let st1 = st\<lparr>train_H := val_H vals\<rparr>;
                  st2 = (if i mod 100 = 0
                         then st1\<lparr>printed := printed st1 @ [(epoch, i, val_loss vals)]\<rparr>
                         else st1);
                  st3 = (if i mod 10 = 0
                         then st2\<lparr>losses := losses st2 @ [val_loss vals],
                                  indices := indices st2 @ [i]\<rparr>
                         else st2)
              in training_steps tf rest st3 sess1))"

definition training_loop ::
  "('w, 'a::zero) tensorflow \<Rightarrow> ('a list list \<times> 'a list list \<times> int) list \<Rightarrow>
     ('w, 'a) session \<Rightarrow> 'a training \<times> ('w, 'a) session" where
  "training_loop tf batches sess =
     (let Hzero = np_zeros2 BATCHSIZE (RNN_CELLSIZE * NLAYERS)
      in training_steps tf (py_enumerate batches)
           \<lparr>train_H = Hzero, losses = [], indices = [], printed = []\<rparr> sess)"

section \<open>The error of the forecast\<close>

text \<open>
  \<^verbatim>\<open>
  PRIMELEN=256
  RUNLEN=512
  OFFSET=20
  prime_data = data[OFFSET:OFFSET+PRIMELEN]
  results = prediction_run(prime_data, RUNLEN)
  ...
  RMSELEN=128
  ...
  rmse = math.sqrt(np.mean((data[OFFSET+PRIMELEN:OFFSET+PRIMELEN+RMSELEN] - results[:RMSELEN])**2))
  \<close>
  The plotting lines in between compute nothing that is used.

  The arrays hold binary32 numbers. The four arithmetic operations of the last line
  are the library's and are taken as they are, as the fields of a record: the
  elementwise difference and square of numpy, \<^verbatim>\<open>np.mean\<close> (which returns a number for
  every array, \<^verbatim>\<open>nan\<close> for the empty one) and \<^verbatim>\<open>math.sqrt\<close> (which returns a Python
  float or raises \<^verbatim>\<open>ValueError\<close>). What is the notebook's own is which elements are
  paired and in which order the operations are applied; the broadcasting rule of the
  difference is written out, since it decides the pairing.
\<close>

definition PRIMELEN :: nat where "PRIMELEN = 256"
definition RUNLEN :: nat where "RUNLEN = 512"
definition OFFSET :: nat where "OFFSET = 20"
definition RMSELEN :: nat where "RMSELEN = 128"

text \<open>\<^verbatim>\<open>xs[a:b]\<close> with both bounds non-negative.\<close>

definition py_slice :: "'a list \<Rightarrow> nat \<Rightarrow> nat \<Rightarrow> 'a list" where
  "py_slice xs a b = take (b - a) (drop a xs)"

record ('f, 'r) arithmetic =
  np_subtract :: "'f \<Rightarrow> 'f \<Rightarrow> 'f"
  np_square :: "'f \<Rightarrow> 'f"
  np_mean :: "'f list \<Rightarrow> 'f"
  math_sqrt :: "'f \<Rightarrow> error + 'r"

definition rmse :: "('f, 'r) arithmetic \<Rightarrow> 'f list \<Rightarrow> 'f list \<Rightarrow> error + 'r" where
  "rmse lib data results =
     (case np_broadcast2 (np_subtract lib)
             (py_slice data (OFFSET + PRIMELEN) (OFFSET + PRIMELEN + RMSELEN))
             (py_slice results 0 RMSELEN) of
        Inl e \<Rightarrow> Inl e
      | Inr diff \<Rightarrow> math_sqrt lib (np_mean lib (map (np_square lib) diff)))"

definition forecast ::
  "('w, 'f::zero) tensorflow \<Rightarrow> ('f, 'r) arithmetic \<Rightarrow> ('w, 'f) session \<Rightarrow> 'f list \<Rightarrow>
     error + ('r \<times> 'f list \<times> ('w, 'f) session)" where
  "forecast tf lib sess data =
     (let prime_data = py_slice data OFFSET (OFFSET + PRIMELEN)
      in case prediction_run tf sess prime_data (int RUNLEN) of
           Inl e \<Rightarrow> Inl e
         | Inr (results, sess1) \<Rightarrow>
             (case rmse lib data results of
                Inl e \<Rightarrow> Inl e
              | Inr r \<Rightarrow> Inr (r, results, sess1)))"

text \<open>
  The error metric in the words of the specification, for two sequences of equal
  length: the square root of the mean of the squared differences, element by element,
  in the library's arithmetic.
\<close>

definition root_mean_square_error ::
  "('f, 'r) arithmetic \<Rightarrow> 'f list \<Rightarrow> 'f list \<Rightarrow> error + 'r" where
  "root_mean_square_error lib truth predicted =
     math_sqrt lib
       (np_mean lib
          (map (\<lambda>i. np_square lib (np_subtract lib (truth ! i) (predicted ! i)))
             [0..<length truth]))"

text \<open>
  One arithmetic on which the definitions can be run: that of the real numbers, which
  the floating-point operations approximate. (Its mean of the empty list is a number
  as well, as \<^verbatim>\<open>nan\<close> is for numpy.)
\<close>

definition exact_arithmetic :: "(real, real) arithmetic" where
  "exact_arithmetic =
     \<lparr>np_subtract = (\<lambda>a b. a - b),
      np_square = (\<lambda>d. d\<^sup>2),
      np_mean = (\<lambda>xs. sum_list xs / real (length xs)),
      math_sqrt = (\<lambda>v. if v < 0 then Inl ValueError else Inr (sqrt v))\<rparr>"

section \<open>Notions used in the statements\<close>

text \<open>
  The node \<^verbatim>\<open>Yout\<close> is \<^verbatim>\<open>Yr[:,-1,:]\<close>, of shape [batchsize, 1], where the batch size
  is the first dimension of the samples fed. That an execution fetching \<^verbatim>\<open>Yout\<close> for
  one sequence returns a 1 by 1 array is the library's doing; it is the one assumption
  made of \<open>tf\<close>, and only where a theorem names it.
\<close>

definition yout_shape_contract :: "('w, 'a) tensorflow \<Rightarrow> bool" where
  "yout_shape_contract tf \<longleftrightarrow>
     (\<forall>w fetches feed.
        Fetch_tensor Yout \<in> set fetches \<and> length (feed_samples feed) = 1 \<longrightarrow>
        (\<exists>y. val_Yout (fst (tf w fetches feed)) = [[y]]))"

text \<open>
  \<open>fed_from previous next\<close>: the execution \<open>next\<close> was fed, as input state, the state
  that \<open>previous\<close> returned, and as samples the output that \<open>previous\<close> returned,
  reshaped to one sequence of one vector of one element.
\<close>

definition fed_from :: "'a execution \<Rightarrow> 'a execution \<Rightarrow> bool" where
  "fed_from previous next \<longleftrightarrow>
     feed_Hin (run_feed next) = val_H (run_values previous) \<and>
     np_reshape_1_1_1 (val_Yout (run_values previous)) = Inr (feed_samples (run_feed next))"

text \<open>
  The same along a list of executions that starts from an output \<open>Yout_v\<close> and a state
  \<open>H_v\<close>: the first is fed these, each later one what the one before it returned.
\<close>

fun fed_back_chain :: "'a list list \<Rightarrow> 'a list list \<Rightarrow> 'a execution list \<Rightarrow> bool" where
  "fed_back_chain Yout_v H_v [] = True"
| "fed_back_chain Yout_v H_v (e # es) =
     (feed_Hin (run_feed e) = H_v \<and>
      np_reshape_1_1_1 Yout_v = Inr (feed_samples (run_feed e)) \<and>
      fed_back_chain (val_Yout (run_values e)) (val_H (run_values e)) es)"

text \<open>
  \<open>library_trace tf w steps w'\<close>: the executions \<open>steps\<close> are the library's, made one
  after the other from the variables \<open>w\<close>. The values of each are what \<open>tf\<close> returns
  for its fetches and its feed on the variables that the one before left (\<open>w\<close> for the
  first), and \<open>w'\<close> are the variables that the last one left.
\<close>

fun library_trace ::
  "('w, 'a) tensorflow \<Rightarrow> 'w \<Rightarrow> 'a execution list \<Rightarrow> 'w \<Rightarrow> bool" where
  "library_trace tf w [] w' = (w' = w)"
| "library_trace tf w (e # es) w' =
     (run_values e = fst (tf w (run_fetches e) (run_feed e)) \<and>
      library_trace tf (snd (tf w (run_fetches e) (run_feed e))) es w')"

text \<open>
  \<open>state_threaded h steps\<close>: the first execution is fed the state \<open>h\<close>, each later one
  the state that the one before it returned.
\<close>

fun state_threaded :: "'a list list \<Rightarrow> 'a execution list \<Rightarrow> bool" where
  "state_threaded h [] = True"
| "state_threaded h (e # es) =
     (feed_Hin (run_feed e) = h \<and> state_threaded (val_H (run_values e)) es)"

text \<open>An execution as \<^verbatim>\<open>prediction_run\<close> makes them: two fetches, no labels, keep probability 1.\<close>

definition inference_execution :: "'a execution \<Rightarrow> bool" where
  "inference_execution e \<longleftrightarrow>
     run_fetches e = [Fetch_tensor Yout, Fetch_tensor H] \<and>
     feed_labels (run_feed e) = None \<and>
     feed_dropout_pkeep (run_feed e) = 1"

text \<open>An execution as the training loop makes it for one enumerated batch.\<close>

definition training_execution ::
  "'a execution \<Rightarrow> nat \<times> 'a list list \<times> 'a list list \<times> int \<Rightarrow> bool" where
  "training_execution e batch \<longleftrightarrow>
     run_fetches e = [Fetch_tensor Yout, Fetch_tensor H, Fetch_tensor loss, Fetch_op train_op] \<and>
     feed_samples (run_feed e) = np_expand_dims_2 (fst (snd batch)) \<and>
     feed_labels (run_feed e) = Some (np_expand_dims_2 (fst (snd (snd batch)))) \<and>
     feed_dropout_pkeep (run_feed e) = DROPOUT_PKEEP"

text \<open>
  A stand-in for the library on which the definitions can be run: its variables are a
  counter, which every execution returns as the output and increments.
\<close>

definition counting_net :: "(int, int) tensorflow" where
  "counting_net w fetches feed = (\<lparr>val_Yout = [[w]], val_H = [[w, w]], val_loss = 0\<rparr>, w + 1)"

section \<open>Properties of the dataset generator\<close>













section \<open>Properties of the model graph\<close>

lemma model_rnn_fn_cells:
  "map (\<lambda>_. GRUCell RNN_CELLSIZE) (py_range (int NLAYERS)) = [GRUCell RNN_CELLSIZE, GRUCell RNN_CELLSIZE]"
  by (simp add: py_range_def NLAYERS_def numeral_2_eq_2)

lemma model_rnn_fn_graph:
  "model_rnn_fn features h0 lbl pkeep =
     (let cell = MultiRNNCell [DropoutWrapper (GRUCell RNN_CELLSIZE) pkeep, GRUCell RNN_CELLSIZE] False;
          Yr = Reshape (Dense (Reshape (DynamicRnnOutputs cell features h0)
                                 [Mul (ShapeDim features 0) (ShapeDim features 1), Dim RNN_CELLSIZE]) 1)
                 [ShapeDim features 0, ShapeDim features 1, Dim 1]
      in Inr (SliceLastStep Yr, DynamicRnnState cell features h0, MeanSquaredError Yr lbl,
              Minimize (AdamOptimizer 0.01) (MeanSquaredError Yr lbl)))"
  unfolding model_rnn_fn_def model_rnn_fn_cells
  by (simp add: py_index_def Let_def)

text \<open>
  Claim C5. For any arguments, \<^verbatim>\<open>model_rnn_fn\<close> returns, and its recurrent part is one
  \<^verbatim>\<open>MultiRNNCell\<close> over \<open>NLAYERS = 2\<close> layers, each of which is a GRU cell of
  \<open>RNN_CELLSIZE\<close> units once a dropout wrapper is looked through; that one cell is
  unrolled by \<^verbatim>\<open>dynamic_rnn\<close> over the input \<open>features\<close> from the state \<open>h0\<close>, giving
  both the state returned and the per-step outputs that \<open>Yr\<close> is computed from.
\<close>

theorem model_rnn_fn_stacked_gru:
  "\<exists>dcells Yr.
     model_rnn_fn features h0 lbl pkeep =
       Inr (SliceLastStep Yr, DynamicRnnState (MultiRNNCell dcells False) features h0,
            MeanSquaredError Yr lbl, Minimize (AdamOptimizer 0.01) (MeanSquaredError Yr lbl)) \<and>
     Yr = Reshape (Dense (Reshape (DynamicRnnOutputs (MultiRNNCell dcells False) features h0)
                            [Mul (ShapeDim features 0) (ShapeDim features 1), Dim RNN_CELLSIZE]) 1)
            [ShapeDim features 0, ShapeDim features 1, Dim 1] \<and>
     NLAYERS = 2 \<and> length dcells = NLAYERS \<and>
     map wrapped_cell dcells = replicate NLAYERS (GRUCell RNN_CELLSIZE)"
  by (simp add: model_rnn_fn_graph Let_def NLAYERS_def numeral_2_eq_2)

theorem model_rnn_fn_stacked_gru_witness:
  "\<exists>dcells Yr.
     instantiated_model =
       Inr (SliceLastStep Yr, DynamicRnnState (MultiRNNCell dcells False) samples Hin,
            MeanSquaredError Yr labels, Minimize (AdamOptimizer 0.01) (MeanSquaredError Yr labels)) \<and>
     length dcells = 2 \<and> map wrapped_cell dcells = [GRUCell 64, GRUCell 64]"
  using model_rnn_fn_stacked_gru [of samples Hin labels dropout_pkeep]
  by (auto simp: instantiated_model_def NLAYERS_def RNN_CELLSIZE_def numeral_2_eq_2)

section \<open>Properties of inference\<close>

lemma np_reshape_1_1_1_single: "np_reshape_1_1_1 [[y]] = Inr [[[y]]]"
  by (simp add: np_reshape_1_1_1_def)

lemma np_item_0_0_single: "np_item_0_0 [[y]] = Inr y"
  by (simp add: np_item_0_0_def)

lemma yout_shape_contractD:
  "yout_shape_contract tf \<Longrightarrow> Fetch_tensor Yout \<in> set fetches \<Longrightarrow>
   length (feed_samples feed) = 1 \<Longrightarrow> \<exists>y. val_Yout (fst (tf w fetches feed)) = [[y]]"
  unfolding yout_shape_contract_def by blast

text \<open>
  The loop, started on a 1 by 1 output: it returns, it makes one execution for each
  element of the range, each an inference execution fed from the one before, and it
  appends the one element of each output to the results.
\<close>

lemma prediction_loop_steps:
  assumes contract: "yout_shape_contract tf"
  shows "\<exists>new steps sess'.
           prediction_loop tf idx [[y]] H_v results sess = Inr (results @ new, sess') \<and>
           executions sess' = executions sess @ steps \<and>
           length steps = length idx \<and> length new = length idx \<and>
           fed_back_chain [[y]] H_v steps \<and>
           list_all2 (\<lambda>e v. np_item_0_0 (val_Yout (run_values e)) = Inr v) steps new \<and>
           list_all inference_execution steps \<and>
           library_trace tf (variables sess) steps (variables sess')"
proof (induction idx arbitrary: y H_v results sess)
  case Nil
  show ?case by simp
next
  case (Cons i rest)
  define fetches where "fetches = [Fetch_tensor Yout, Fetch_tensor H]"
  define feed :: "'b feed_dict" where
    "feed = \<lparr>feed_Hin = H_v, feed_samples = [[[y]]], feed_labels = None, feed_dropout_pkeep = 1\<rparr>"
  define vals where "vals = fst (tf (variables sess) fetches feed)"
  define e where "e = \<lparr>run_fetches = fetches, run_feed = feed, run_values = vals\<rparr>"
  define sess1 where
    "sess1 = \<lparr>variables = snd (tf (variables sess) fetches feed), executions = executions sess @ [e]\<rparr>"
  have run: "sess_run tf sess fetches feed = (vals, sess1)"
    by (simp add: sess_run_def vals_def sess1_def e_def split: prod.split)
  obtain y' where y': "val_Yout vals = [[y']]"
    using yout_shape_contractD [OF contract, of fetches feed "variables sess"]
    by (auto simp: vals_def fetches_def feed_def)
  from Cons.IH [of y' "val_H vals" "results @ [y']" sess1]
  obtain new steps sess' where ih:
    "prediction_loop tf rest [[y']] (val_H vals) (results @ [y']) sess1 = Inr ((results @ [y']) @ new, sess')"
    "executions sess' = executions sess1 @ steps"
    "length steps = length rest" "length new = length rest"
    "fed_back_chain [[y']] (val_H vals) steps"
    "list_all2 (\<lambda>e v. np_item_0_0 (val_Yout (run_values e)) = Inr v) steps new"
    "list_all inference_execution steps"
    "library_trace tf (variables sess1) steps (variables sess')"
    by blast
  have step: "prediction_loop tf (i # rest) [[y]] H_v results sess = Inr (results @ (y' # new), sess')"
    using run ih(1) y'
    by (simp add: np_reshape_1_1_1_single np_item_0_0_single fetches_def feed_def)
  have "executions sess' = executions sess @ (e # steps)"
    using ih(2) by (simp add: sess1_def)
  moreover have "fed_back_chain [[y]] H_v (e # steps)"
    using ih(5) y' by (simp add: e_def feed_def np_reshape_1_1_1_single)
  moreover have "list_all2 (\<lambda>e v. np_item_0_0 (val_Yout (run_values e)) = Inr v) (e # steps) (y' # new)"
    using ih(6) y' by (simp add: e_def np_item_0_0_single)
  moreover have "list_all inference_execution (e # steps)"
    using ih(7) by (simp add: inference_execution_def e_def fetches_def feed_def)
  moreover have "library_trace tf (variables sess) (e # steps) (variables sess')"
    using ih(8) by (simp add: e_def vals_def sess1_def)
  ultimately show ?case
    using step ih(3,4) by (intro exI [of _ "y' # new"] exI [of _ "e # steps"] exI [of _ sess']) simp
qed

lemma fed_back_chain_successive:
  "fed_back_chain (val_Yout (run_values p)) (val_H (run_values p)) steps \<Longrightarrow>
   0 < k \<Longrightarrow> k < length (p # steps) \<Longrightarrow>
   fed_from ((p # steps) ! (k - 1)) ((p # steps) ! k)"
proof (induction steps arbitrary: p k)
  case Nil
  then show ?case by simp
next
  case (Cons e es)
  show ?case
  proof (cases "k = 1")
    case True
    with Cons.prems(1) show ?thesis by (simp add: fed_from_def)
  next
    case False
    with Cons.prems(2) obtain j where j: "k = Suc j" "0 < j"
      by (cases k) auto
    from Cons.prems(1) have "fed_back_chain (val_Yout (run_values e)) (val_H (run_values e)) es"
      by simp
    from Cons.IH [OF this j(2)] Cons.prems(3) j
    show ?thesis by simp
  qed
qed

lemma fed_back_chain_steps:
  assumes "fed_back_chain Yout_v H_v steps" and "Suc k < length steps"
  shows "fed_from (steps ! k) (steps ! Suc k)"
proof (cases steps)
  case Nil
  with assms(2) show ?thesis by simp
next
  case (Cons e es)
  with assms(1) have "fed_back_chain (val_Yout (run_values e)) (val_H (run_values e)) es"
    by simp
  from fed_back_chain_successive [OF this, of "Suc k"] assms(2) Cons
  show ?thesis by simp
qed

text \<open>The whole function: the priming execution, if any, and then the loop.\<close>

lemma prediction_run_executions:
  assumes contract: "yout_shape_contract tf"
  shows "\<exists>results sess' primed steps.
           prediction_run tf sess prime_data run_length = Inr (results, sess') \<and>
           executions sess' = executions sess @ primed @ steps \<and>
           length steps = nat run_length \<and> length results = nat run_length \<and>
           (prime_data = [] \<longrightarrow>
              primed = [] \<and>
              fed_back_chain (np_zeros2 1 1) (np_zeros2 1 (RNN_CELLSIZE * NLAYERS)) steps) \<and>
           (prime_data \<noteq> [] \<longrightarrow>
              (\<exists>p. primed = [p] \<and>
                   feed_Hin (run_feed p) = np_zeros2 1 (RNN_CELLSIZE * NLAYERS) \<and>
                   feed_samples (run_feed p) = [map (\<lambda>v. [v]) prime_data] \<and>
                   fed_back_chain (val_Yout (run_values p)) (val_H (run_values p)) steps)) \<and>
           list_all2 (\<lambda>e v. np_item_0_0 (val_Yout (run_values e)) = Inr v) steps results \<and>
           list_all inference_execution (primed @ steps) \<and>
           library_trace tf (variables sess) (primed @ steps) (variables sess')"
proof (cases "prime_data = []")
  case True
  have zero: "(np_zeros2 1 1 :: 'b list list) = [[0]]" "(np_zeros2 (Suc 0) (Suc 0) :: 'b list list) = [[0]]"
    by (simp_all add: np_zeros2_def)
  from prediction_loop_steps [OF contract, of "py_range run_length" 0
      "np_zeros2 1 (RNN_CELLSIZE * NLAYERS)" "[]" sess]
  obtain new steps sess' where loop:
    "prediction_loop tf (py_range run_length) [[0]] (np_zeros2 1 (RNN_CELLSIZE * NLAYERS)) [] sess
       = Inr (new, sess')"
    "executions sess' = executions sess @ steps"
    "length steps = length (py_range run_length)" "length new = length (py_range run_length)"
    "fed_back_chain [[0]] (np_zeros2 1 (RNN_CELLSIZE * NLAYERS)) steps"
    "list_all2 (\<lambda>e v. np_item_0_0 (val_Yout (run_values e)) = Inr v) steps new"
    "list_all inference_execution steps"
    "library_trace tf (variables sess) steps (variables sess')"
    by auto
  have "prediction_run tf sess prime_data run_length = Inr (new, sess')"
    using True loop(1) by (simp add: prediction_run_def zero)
  with loop(2-8) True show ?thesis
    by (intro exI [of _ new] exI [of _ sess'] exI [of _ "[]"] exI [of _ steps])
       (simp add: zero py_range_def)
next
  case False
  define H_0 :: "'b list list" where "H_0 = np_zeros2 1 (RNN_CELLSIZE * NLAYERS)"
  define fetches where "fetches = [Fetch_tensor Yout, Fetch_tensor H]"
  define feed :: "'b feed_dict" where
    "feed = \<lparr>feed_Hin = H_0, feed_samples = [map (\<lambda>v. [v]) prime_data], feed_labels = None,
             feed_dropout_pkeep = 1\<rparr>"
  define vals where "vals = fst (tf (variables sess) fetches feed)"
  define p where "p = \<lparr>run_fetches = fetches, run_feed = feed, run_values = vals\<rparr>"
  define sess1 where
    "sess1 = \<lparr>variables = snd (tf (variables sess) fetches feed), executions = executions sess @ [p]\<rparr>"
  have run: "sess_run tf sess fetches feed = (vals, sess1)"
    by (simp add: sess_run_def vals_def sess1_def p_def split: prod.split)
  obtain y where y: "val_Yout vals = [[y]]"
    using yout_shape_contractD [OF contract, of fetches feed "variables sess"]
    by (auto simp: vals_def fetches_def feed_def)
  from prediction_loop_steps [OF contract, of "py_range run_length" y "val_H vals" "[]" sess1]
  obtain new steps sess' where loop:
    "prediction_loop tf (py_range run_length) [[y]] (val_H vals) [] sess1 = Inr (new, sess')"
    "executions sess' = executions sess1 @ steps"
    "length steps = length (py_range run_length)" "length new = length (py_range run_length)"
    "fed_back_chain [[y]] (val_H vals) steps"
    "list_all2 (\<lambda>e v. np_item_0_0 (val_Yout (run_values e)) = Inr v) steps new"
    "list_all inference_execution steps"
    "library_trace tf (variables sess1) steps (variables sess')"
    by auto
  have "prediction_run tf sess prime_data run_length = Inr (new, sess')"
    using False loop(1) run y
    by (simp add: prediction_run_def np_reshape_1_n_1_def H_0_def fetches_def feed_def)
  moreover have "executions sess' = executions sess @ [p] @ steps"
    using loop(2) by (simp add: sess1_def)
  moreover have "inference_execution p"
    by (simp add: inference_execution_def p_def fetches_def feed_def)
  moreover have "fed_back_chain (val_Yout (run_values p)) (val_H (run_values p)) steps"
    using loop(5) y by (simp add: p_def)
  moreover have "library_trace tf (variables sess) ([p] @ steps) (variables sess')"
    using loop(8) by (simp add: p_def vals_def sess1_def)
  ultimately show ?thesis
    using loop(3,4,6,7) False
    by (intro exI [of _ new] exI [of _ sess'] exI [of _ "[p]"] exI [of _ steps])
       (simp add: py_range_def p_def feed_def H_0_def)
qed

lemma py_range_2: "py_range 2 = [0, 1]"
  by (simp add: py_range_def numeral_2_eq_2)

lemma counting_net_contract: "yout_shape_contract counting_net"
  by (simp add: yout_shape_contract_def counting_net_def)

lemma counting_run:
  "prediction_run counting_net \<lparr>variables = 5, executions = []\<rparr> [7] 2 =
     Inr ([6, 7],
          \<lparr>variables = 8,
           executions =
             [\<lparr>run_fetches = [Fetch_tensor Yout, Fetch_tensor H],
               run_feed = \<lparr>feed_Hin = np_zeros2 1 (RNN_CELLSIZE * NLAYERS), feed_samples = [[[7]]],
                           feed_labels = None, feed_dropout_pkeep = 1\<rparr>,
               run_values = \<lparr>val_Yout = [[5]], val_H = [[5, 5]], val_loss = 0\<rparr>\<rparr>,
              \<lparr>run_fetches = [Fetch_tensor Yout, Fetch_tensor H],
               run_feed = \<lparr>feed_Hin = [[5, 5]], feed_samples = [[[5]]],
                           feed_labels = None, feed_dropout_pkeep = 1\<rparr>,
               run_values = \<lparr>val_Yout = [[6]], val_H = [[6, 6]], val_loss = 0\<rparr>\<rparr>,
              \<lparr>run_fetches = [Fetch_tensor Yout, Fetch_tensor H],
               run_feed = \<lparr>feed_Hin = [[6, 6]], feed_samples = [[[6]]],
                           feed_labels = None, feed_dropout_pkeep = 1\<rparr>,
               run_values = \<lparr>val_Yout = [[7]], val_H = [[7, 7]], val_loss = 0\<rparr>\<rparr>]\<rparr>)"
  by (simp add: prediction_run_def np_reshape_1_n_1_def sess_run_def counting_net_def py_range_2
      np_reshape_1_1_1_def np_item_0_0_def Let_def)


lemma counting_run_unprimed_once:
  "prediction_run counting_net \<lparr>variables = 5, executions = []\<rparr> [] 1 =
     Inr ([5],
          \<lparr>variables = 6,
           executions =
             [\<lparr>run_fetches = [Fetch_tensor Yout, Fetch_tensor H],
               run_feed = \<lparr>feed_Hin = np_zeros2 1 (RNN_CELLSIZE * NLAYERS), feed_samples = [[[0]]],
                           feed_labels = None, feed_dropout_pkeep = 1\<rparr>,
               run_values = \<lparr>val_Yout = [[5]], val_H = [[5, 5]], val_loss = 0\<rparr>\<rparr>]\<rparr>)"
  by (simp add: prediction_run_def sess_run_def counting_net_def py_range_def
      np_reshape_1_1_1_def np_item_0_0_def Let_def np_zeros2_def)

text \<open>
  Claim C1, where it fails. With empty \<^verbatim>\<open>prime_data\<close> and run length 1, on a session
  that has made no execution yet, the one feedback iteration is the only execution
  there is: it is fed the samples \<open>[[[0]]]\<close>, and no execution is one it is fed from.
  So the first iteration of an unprimed run is not fed what a previous network
  execution produced.
\<close>

theorem unprimed_first_iteration_not_fed_back:
  "\<exists>results sess'.
     prediction_run counting_net \<lparr>variables = 5, executions = []\<rparr> [] 1 = Inr (results, sess') \<and>
     length results = 1 \<and>
     length (executions sess') = 1 \<and>
     feed_samples (run_feed (executions sess' ! 0)) = [[[0]]] \<and>
     \<not> (\<exists>previous \<in> set (executions sess'). fed_from previous (executions sess' ! 0))"
  unfolding counting_run_unprimed_once
  by (simp add: fed_from_def np_reshape_1_1_1_def)

text \<open>
  Claim C1, amended. For a run length \<open>n \<ge> 0\<close>, \<^verbatim>\<open>prediction_run\<close> returns; after the
  priming execution (one when \<^verbatim>\<open>prime_data\<close> is not empty, none otherwise) it makes
  exactly \<open>n\<close> executions, the feedback iterations, all of them the library's on the
  variables the execution before left. Every execution of the run that has one before
  it is fed the output and the output state of the one before it: each feedback
  iteration from the second on, and the first one too when there was a priming
  execution. The priming execution is fed the zero state and \<^verbatim>\<open>prime_data\<close> as one
  sequence; without it, the first feedback iteration is fed the zero state and the
  zero sample. The array returned has length \<open>n\<close>, its element \<open>k\<close> being the output
  of feedback iteration \<open>k\<close>.
\<close>

theorem prediction_run_feedback:
  assumes "yout_shape_contract tf" and "0 \<le> run_length"
  shows "\<exists>results sess' primed steps.
           prediction_run tf sess prime_data run_length = Inr (results, sess') \<and>
           executions sess' = executions sess @ primed @ steps \<and>
           library_trace tf (variables sess) (primed @ steps) (variables sess') \<and>
           length primed = (if prime_data = [] then 0 else 1) \<and>
           int (length steps) = run_length \<and>
           int (length results) = run_length \<and>
           (\<forall>k < length steps.
              np_item_0_0 (val_Yout (run_values (steps ! k))) = Inr (results ! k)) \<and>
           (\<forall>k. 0 < k \<and> k < length (primed @ steps) \<longrightarrow>
              fed_from ((primed @ steps) ! (k - 1)) ((primed @ steps) ! k)) \<and>
           (\<forall>k < length (primed @ steps).
              run_fetches ((primed @ steps) ! k) = [Fetch_tensor Yout, Fetch_tensor H]) \<and>
           (\<forall>p. primed = [p] \<longrightarrow>
              feed_Hin (run_feed p) = np_zeros2 1 (RNN_CELLSIZE * NLAYERS) \<and>
              feed_samples (run_feed p) = [map (\<lambda>v. [v]) prime_data]) \<and>
           (primed = [] \<and> 0 < run_length \<longrightarrow>
              feed_Hin (run_feed (steps ! 0)) = np_zeros2 1 (RNN_CELLSIZE * NLAYERS) \<and>
              feed_samples (run_feed (steps ! 0)) = [[[0]]])"
proof -
  from prediction_run_executions [OF assms(1), of sess prime_data run_length]
  obtain results sess' primed steps where run:
    "prediction_run tf sess prime_data run_length = Inr (results, sess')"
    "executions sess' = executions sess @ primed @ steps"
    "length steps = nat run_length" "length results = nat run_length"
    "prime_data = [] \<longrightarrow>
       primed = [] \<and> fed_back_chain (np_zeros2 1 1) (np_zeros2 1 (RNN_CELLSIZE * NLAYERS)) steps"
    "prime_data \<noteq> [] \<longrightarrow>
       (\<exists>p. primed = [p] \<and>
            feed_Hin (run_feed p) = np_zeros2 1 (RNN_CELLSIZE * NLAYERS) \<and>
            feed_samples (run_feed p) = [map (\<lambda>v. [v]) prime_data] \<and>
            fed_back_chain (val_Yout (run_values p)) (val_H (run_values p)) steps)"
    "list_all2 (\<lambda>e v. np_item_0_0 (val_Yout (run_values e)) = Inr v) steps results"
    "list_all inference_execution (primed @ steps)"
    "library_trace tf (variables sess) (primed @ steps) (variables sess')"
    by blast
  have outputs: "\<forall>k < length steps. np_item_0_0 (val_Yout (run_values (steps ! k))) = Inr (results ! k)"
    using run(7) by (simp add: list_all2_conv_all_nth)
  have fetched: "\<forall>k < length (primed @ steps).
                   run_fetches ((primed @ steps) ! k) = [Fetch_tensor Yout, Fetch_tensor H]"
    using run(8) unfolding list_all_length inference_execution_def by blast
  have chain: "\<forall>k. 0 < k \<and> k < length (primed @ steps) \<longrightarrow>
                 fed_from ((primed @ steps) ! (k - 1)) ((primed @ steps) ! k)"
  proof (cases "prime_data = []")
    case True
    with run(5) have primed: "primed = []"
      and fb: "fed_back_chain (np_zeros2 1 1) (np_zeros2 1 (RNN_CELLSIZE * NLAYERS)) steps"
      by simp_all
    show ?thesis
    proof (intro allI impI)
      fix k assume k: "0 < k \<and> k < length (primed @ steps)"
      then obtain j where j: "k = Suc j" by (cases k) auto
      with k primed have "Suc j < length steps" by simp
      from fed_back_chain_steps [OF fb this] j primed
      show "fed_from ((primed @ steps) ! (k - 1)) ((primed @ steps) ! k)" by simp
    qed
  next
    case False
    with run(6) obtain p where primed: "primed = [p]"
      and fb: "fed_back_chain (val_Yout (run_values p)) (val_H (run_values p)) steps"
      by blast
    show ?thesis
      using fed_back_chain_successive [OF fb] by (simp add: primed)
  qed
  have count: "length primed = (if prime_data = [] then 0 else 1)"
    using run(5,6) by auto
  have priming: "\<forall>p. primed = [p] \<longrightarrow>
                   feed_Hin (run_feed p) = np_zeros2 1 (RNN_CELLSIZE * NLAYERS) \<and>
                   feed_samples (run_feed p) = [map (\<lambda>v. [v]) prime_data]"
    using run(5,6) by (cases "prime_data = []") auto
  have unprimed: "feed_Hin (run_feed (steps ! 0)) = np_zeros2 1 (RNN_CELLSIZE * NLAYERS) \<and>
                  feed_samples (run_feed (steps ! 0)) = [[[0]]]"
    if "primed = [] \<and> 0 < run_length"
  proof -
    from that count have empty: "prime_data = []" by (auto split: if_splits)
    from that run(3) obtain e es where steps: "steps = e # es"
      by (cases steps) auto
    from run(5) empty steps show ?thesis
      by (simp add: np_zeros2_def np_reshape_1_1_1_def)
  qed
  from run(1-4,9) outputs chain fetched count priming unprimed assms(2) show ?thesis
    by (intro exI [of _ results] exI [of _ sess'] exI [of _ primed] exI [of _ steps]) simp
qed

theorem prediction_run_feedback_witness:
  "yout_shape_contract counting_net \<and> (0 :: int) \<le> 2 \<and>
   (\<exists>sess'. prediction_run counting_net \<lparr>variables = 5, executions = []\<rparr> [7] 2 =
              Inr ([6, 7], sess') \<and>
            length (executions sess') = 3 \<and>
            variables sess' = 8 \<and>
            feed_samples (run_feed (executions sess' ! 0)) = [[[7]]] \<and>
            fed_from (executions sess' ! 0) (executions sess' ! 1) \<and>
            fed_from (executions sess' ! 1) (executions sess' ! 2))"
proof -
  let ?s = "\<lparr>variables = 5 :: int, executions = [] :: int execution list\<rparr>"
  have "(0 :: int) \<le> 2" by simp
  from prediction_run_feedback [OF counting_net_contract this, where sess = ?s and prime_data = "[7]"]
  obtain results sess' primed steps where r:
    "prediction_run counting_net ?s [7] 2 = Inr (results, sess')"
    "executions sess' = executions ?s @ primed @ steps"
    "library_trace counting_net (variables ?s) (primed @ steps) (variables sess')"
    "length primed = 1" "int (length steps) = 2"
    "\<forall>k. 0 < k \<and> k < length (primed @ steps) \<longrightarrow>
       fed_from ((primed @ steps) ! (k - 1)) ((primed @ steps) ! k)"
    "\<forall>p. primed = [p] \<longrightarrow> feed_samples (run_feed p) = [map (\<lambda>v. [v]) [7]]"
    by auto
  have res: "results = [6, 7]" using r(1) counting_run by simp
  have ex: "executions sess' = primed @ steps" using r(2) by simp
  have len: "length (primed @ steps) = 3" using r(4,5) by simp
  from r(4) obtain p where p: "primed = [p]"
    by (auto simp: length_Suc_conv)
  from r(5) obtain a b where steps: "steps = [a, b]"
    by (auto simp: length_Suc_conv numeral_2_eq_2)
  have vars: "variables sess' = 8"
    using r(3) by (simp add: p steps counting_net_def)
  have first: "feed_samples (run_feed ((primed @ steps) ! 0)) = [[[7]]]"
    using r(7) p by simp
  have "fed_from ((primed @ steps) ! 0) ((primed @ steps) ! 1)"
    using r(6) [rule_format, of 1] len by simp
  moreover have "fed_from ((primed @ steps) ! 1) ((primed @ steps) ! 2)"
    using r(6) [rule_format, of 2] len by simp
  ultimately show ?thesis
    using r(1) res ex len vars first counting_net_contract by auto
qed



text \<open>
  Claim C10. Every execution that \<^verbatim>\<open>prediction_run\<close> makes, the priming one and each
  feedback iteration, feeds the keep probability 1.0; and in the graph that
  \<^verbatim>\<open>model_rnn_fn\<close> builds, every layer of the stacked cell but the last is a dropout
  wrapper around a GRU cell, and the last layer is the bare GRU cell.
\<close>

theorem dropout_off_at_inference_and_on_last_layer:
  assumes "yout_shape_contract tf"
  shows "(\<exists>results sess' new.
            prediction_run tf sess prime_data run_length = Inr (results, sess') \<and>
            executions sess' = executions sess @ new \<and>
            length new = (if prime_data = [] then 0 else 1) + nat run_length \<and>
            (\<forall>e \<in> set new. feed_dropout_pkeep (run_feed e) = 1.0)) \<and>
         (\<exists>y l t dcells.
            model_rnn_fn features h0 lbl pkeep =
              Inr (y, DynamicRnnState (MultiRNNCell dcells False) features h0, l, t) \<and>
            length dcells = NLAYERS \<and>
            (\<forall>k < length dcells - 1. dcells ! k = DropoutWrapper (GRUCell RNN_CELLSIZE) pkeep) \<and>
            last dcells = GRUCell RNN_CELLSIZE \<and>
            \<not> is_dropout (last dcells))"
proof
  from prediction_run_executions [OF assms, of sess prime_data run_length]
  obtain results sess' primed steps where run:
    "prediction_run tf sess prime_data run_length = Inr (results, sess')"
    "executions sess' = executions sess @ primed @ steps"
    "length steps = nat run_length"
    "prime_data = [] \<longrightarrow> primed = []"
    "prime_data \<noteq> [] \<longrightarrow> (\<exists>p. primed = [p])"
    "list_all inference_execution (primed @ steps)"
    by blast
  have "length (primed @ steps) = (if prime_data = [] then 0 else 1) + nat run_length"
    using run(3,4,5) by auto
  moreover have "\<forall>e \<in> set (primed @ steps). feed_dropout_pkeep (run_feed e) = 1.0"
    using run(6) unfolding list_all_iff inference_execution_def by simp
  ultimately show "\<exists>results sess' new.
      prediction_run tf sess prime_data run_length = Inr (results, sess') \<and>
      executions sess' = executions sess @ new \<and>
      length new = (if prime_data = [] then 0 else 1) + nat run_length \<and>
      (\<forall>e \<in> set new. feed_dropout_pkeep (run_feed e) = 1.0)"
    using run(1,2) by blast
next
  show "\<exists>y l t dcells.
          model_rnn_fn features h0 lbl pkeep =
            Inr (y, DynamicRnnState (MultiRNNCell dcells False) features h0, l, t) \<and>
          length dcells = NLAYERS \<and>
          (\<forall>k < length dcells - 1. dcells ! k = DropoutWrapper (GRUCell RNN_CELLSIZE) pkeep) \<and>
          last dcells = GRUCell RNN_CELLSIZE \<and>
          \<not> is_dropout (last dcells)"
    by (simp add: model_rnn_fn_graph Let_def NLAYERS_def)
qed

theorem dropout_off_at_inference_and_on_last_layer_witness:
  "yout_shape_contract counting_net \<and>
   (\<exists>results sess'.
      prediction_run counting_net \<lparr>variables = 0, executions = []\<rparr> [3, 4] 1 = Inr (results, sess') \<and>
      map (\<lambda>e. feed_dropout_pkeep (run_feed e)) (executions sess') = [1, 1]) \<and>
   (\<exists>y l t.
      instantiated_model =
        Inr (y, DynamicRnnState
                  (MultiRNNCell [DropoutWrapper (GRUCell RNN_CELLSIZE) dropout_pkeep,
                                 GRUCell RNN_CELLSIZE] False) samples Hin, l, t))"
proof -
  let ?s = "\<lparr>variables = 0 :: int, executions = [] :: int execution list\<rparr>"
  note inst = dropout_off_at_inference_and_on_last_layer [OF counting_net_contract,
      where sess = ?s and prime_data = "[3, 4]" and run_length = 1 and features = samples
        and ?h0.0 = Hin and lbl = labels and pkeep = dropout_pkeep]
  from inst obtain results sess' new where r:
    "prediction_run counting_net ?s [3, 4] 1 = Inr (results, sess')"
    "executions sess' = executions ?s @ new" "length new = 2"
    "\<forall>e \<in> set new. feed_dropout_pkeep (run_feed e) = 1"
    by auto
  from r(3) obtain a b where new: "new = [a, b]"
    by (auto simp: length_Suc_conv numeral_2_eq_2)
  have keep: "map (\<lambda>e. feed_dropout_pkeep (run_feed e)) (executions sess') = [1, 1]"
    using r(2,4) new by simp
  from inst obtain y l t dcells where m:
    "model_rnn_fn samples Hin labels dropout_pkeep =
       Inr (y, DynamicRnnState (MultiRNNCell dcells False) samples Hin, l, t)"
    "length dcells = NLAYERS"
    "\<forall>k < length dcells - 1. dcells ! k = DropoutWrapper (GRUCell RNN_CELLSIZE) dropout_pkeep"
    "last dcells = GRUCell RNN_CELLSIZE"
    by auto
  from m(2) obtain c d where dcells: "dcells = [c, d]"
    by (auto simp: length_Suc_conv NLAYERS_def numeral_2_eq_2)
  with m(3,4) have "dcells = [DropoutWrapper (GRUCell RNN_CELLSIZE) dropout_pkeep, GRUCell RNN_CELLSIZE]"
    by simp
  with m(1) r(1) keep counting_net_contract show ?thesis
    by (auto simp: instantiated_model_def)
qed

section \<open>Properties of the training loop\<close>

lemma state_threaded_nth:
  "state_threaded h steps \<Longrightarrow> k < length steps \<Longrightarrow>
   feed_Hin (run_feed (steps ! k)) = (if k = 0 then h else val_H (run_values (steps ! (k - 1))))"
proof (induction steps arbitrary: h k)
  case Nil
  then show ?case by simp
next
  case (Cons e es)
  show ?case
  proof (cases k)
    case 0
    with Cons.prems(1) show ?thesis by simp
  next
    case (Suc j)
    from Cons.prems(1) have "state_threaded (val_H (run_values e)) es" by simp
    from Cons.IH [OF this, of j] Cons.prems(2) Suc show ?thesis
      by (cases j) simp_all
  qed
qed

text \<open>
  The loop over the enumerated batches: one execution for each, fetching the training
  operation with the batch fed, made by the library on the variables the execution
  before left, and fed the state the execution before returned.
\<close>

lemma training_steps_executions:
  "\<exists>st' sess' steps.
     training_steps tf batches st sess = (st', sess') \<and>
     executions sess' = executions sess @ steps \<and>
     list_all2 training_execution steps batches \<and>
     library_trace tf (variables sess) steps (variables sess') \<and>
     state_threaded (train_H st) steps \<and>
     train_H st' = (if steps = [] then train_H st else val_H (run_values (last steps)))"
proof (induction batches arbitrary: st sess)
  case Nil
  show ?case by simp
next
  case (Cons b rest)
  obtain i next_samples next_labels epoch where b: "b = (i, next_samples, next_labels, epoch)"
    by (cases b)
  define fetches where
    "fetches = [Fetch_tensor Yout, Fetch_tensor H, Fetch_tensor loss, Fetch_op train_op]"
  define feed where
    "feed = \<lparr>feed_Hin = train_H st, feed_samples = np_expand_dims_2 next_samples,
             feed_labels = Some (np_expand_dims_2 next_labels),
             feed_dropout_pkeep = DROPOUT_PKEEP\<rparr>"
  define vals where "vals = fst (tf (variables sess) fetches feed)"
  define e where "e = \<lparr>run_fetches = fetches, run_feed = feed, run_values = vals\<rparr>"
  define sess1 where
    "sess1 = \<lparr>variables = snd (tf (variables sess) fetches feed), executions = executions sess @ [e]\<rparr>"
  define st1 where "st1 = st\<lparr>train_H := val_H vals\<rparr>"
  define st2 where
    "st2 = (if i mod 100 = 0 then st1\<lparr>printed := printed st1 @ [(epoch, i, val_loss vals)]\<rparr>
            else st1)"
  define st3 where
    "st3 = (if i mod 10 = 0
            then st2\<lparr>losses := losses st2 @ [val_loss vals], indices := indices st2 @ [i]\<rparr>
            else st2)"
  have run: "sess_run tf sess fetches feed = (vals, sess1)"
    by (simp add: sess_run_def vals_def sess1_def e_def split: prod.split)
  have step: "training_steps tf (b # rest) st sess = training_steps tf rest st3 sess1"
    using run by (simp add: b Let_def fetches_def feed_def st1_def st2_def st3_def)
  have state: "train_H st3 = val_H vals"
    by (simp add: st3_def st2_def st1_def)
  from Cons.IH [of st3 sess1] obtain st' sess' steps where ih:
    "training_steps tf rest st3 sess1 = (st', sess')"
    "executions sess' = executions sess1 @ steps"
    "list_all2 training_execution steps rest"
    "library_trace tf (variables sess1) steps (variables sess')"
    "state_threaded (train_H st3) steps"
    "train_H st' = (if steps = [] then train_H st3 else val_H (run_values (last steps)))"
    by blast
  have "training_execution e b"
    by (simp add: training_execution_def e_def fetches_def feed_def b)
  moreover have "library_trace tf (variables sess) (e # steps) (variables sess')"
    using ih(4) by (simp add: e_def vals_def sess1_def)
  moreover have "state_threaded (train_H st) (e # steps)"
    using ih(5) state by (simp add: e_def feed_def)
  moreover have "train_H st' = val_H (run_values (last (e # steps)))"
    using ih(6) state by (simp add: e_def)
  ultimately show ?case
    using ih(1-3) step
    by (intro exI [of _ st'] exI [of _ sess'] exI [of _ "e # steps"]) (simp add: sess1_def)
qed

text \<open>
  Claim C4. The training operation of the instantiated model is the optimizer's
  \<^verbatim>\<open>minimize\<close> of the loss (the optimizer is Adam with learning rate 0.01), and the loss
  is the mean squared error between \<open>Yr\<close>, the outputs at every step of the sequence
  (of which \<^verbatim>\<open>Yout\<close> is the last), and the labels. The training loop makes one execution
  for each batch it is given, in order. Each of them fetches that training operation
  with the batch's samples and labels fed; each is the library's execution on the
  variables that the step before left, so that the variables after the loop are those
  left by the last step; and each is fed the state that the step before returned, the
  first one the zero state. What the library does to the variables when it runs the
  training operation is the library's.
\<close>

theorem training_minimizes_mean_squared_error:
  "(\<exists>Yr cell.
      instantiated_model = Inr (Yout, H, loss, train_op) \<and>
      train_op = Minimize (AdamOptimizer 0.01) loss \<and>
      loss = MeanSquaredError Yr labels \<and>
      Yout = SliceLastStep Yr \<and>
      Yr = Reshape (Dense (Reshape (DynamicRnnOutputs cell samples Hin)
                             [Mul (ShapeDim samples 0) (ShapeDim samples 1), Dim RNN_CELLSIZE]) 1)
             [ShapeDim samples 0, ShapeDim samples 1, Dim 1]) \<and>
   (\<exists>st sess' steps.
      training_loop tf batches sess = (st, sess') \<and>
      executions sess' = executions sess @ steps \<and>
      length steps = length batches \<and>
      library_trace tf (variables sess) steps (variables sess') \<and>
      train_H st = (if batches = [] then np_zeros2 BATCHSIZE (RNN_CELLSIZE * NLAYERS)
                    else val_H (run_values (last steps))) \<and>
      (\<forall>k < length batches.
         run_fetches (steps ! k) =
           [Fetch_tensor Yout, Fetch_tensor H, Fetch_tensor loss, Fetch_op train_op] \<and>
         feed_samples (run_feed (steps ! k)) = np_expand_dims_2 (fst (batches ! k)) \<and>
         feed_labels (run_feed (steps ! k)) = Some (np_expand_dims_2 (fst (snd (batches ! k)))) \<and>
         feed_dropout_pkeep (run_feed (steps ! k)) = DROPOUT_PKEEP \<and>
         feed_Hin (run_feed (steps ! k)) =
           (if k = 0 then np_zeros2 BATCHSIZE (RNN_CELLSIZE * NLAYERS)
            else val_H (run_values (steps ! (k - 1))))))"
proof
  define cell where
    "cell = MultiRNNCell [DropoutWrapper (GRUCell RNN_CELLSIZE) dropout_pkeep, GRUCell RNN_CELLSIZE] False"
  define Yr where
    "Yr = Reshape (Dense (Reshape (DynamicRnnOutputs cell samples Hin)
                            [Mul (ShapeDim samples 0) (ShapeDim samples 1), Dim RNN_CELLSIZE]) 1)
            [ShapeDim samples 0, ShapeDim samples 1, Dim 1]"
  have built: "instantiated_model =
                 Inr (SliceLastStep Yr, DynamicRnnState cell samples Hin, MeanSquaredError Yr labels,
                      Minimize (AdamOptimizer 0.01) (MeanSquaredError Yr labels))"
    by (simp add: instantiated_model_def model_rnn_fn_graph Let_def Yr_def cell_def)
  have globals: "Yout = SliceLastStep Yr" "H = DynamicRnnState cell samples Hin"
    "loss = MeanSquaredError Yr labels"
    "train_op = Minimize (AdamOptimizer 0.01) (MeanSquaredError Yr labels)"
    by (simp_all add: Yout_def H_def loss_def train_op_def built)
  show "\<exists>Yr cell.
      instantiated_model = Inr (Yout, H, loss, train_op) \<and>
      train_op = Minimize (AdamOptimizer 0.01) loss \<and>
      loss = MeanSquaredError Yr labels \<and>
      Yout = SliceLastStep Yr \<and>
      Yr = Reshape (Dense (Reshape (DynamicRnnOutputs cell samples Hin)
                             [Mul (ShapeDim samples 0) (ShapeDim samples 1), Dim RNN_CELLSIZE]) 1)
             [ShapeDim samples 0, ShapeDim samples 1, Dim 1]"
    using built globals Yr_def by (intro exI [of _ Yr] exI [of _ cell]) simp
next
  let ?st0 = "\<lparr>train_H = np_zeros2 BATCHSIZE (RNN_CELLSIZE * NLAYERS), losses = [], indices = [], printed = []\<rparr>"
  from training_steps_executions [of tf "py_enumerate batches" ?st0 sess]
  obtain st sess' steps where run:
    "training_steps tf (py_enumerate batches) ?st0 sess = (st, sess')"
    "executions sess' = executions sess @ steps"
    "list_all2 training_execution steps (py_enumerate batches)"
    "library_trace tf (variables sess) steps (variables sess')"
    "state_threaded (train_H ?st0) steps"
    "train_H st = (if steps = [] then train_H ?st0 else val_H (run_values (last steps)))"
    by blast
  have len: "length steps = length batches"
    using list_all2_lengthD [OF run(3)] by (simp add: py_enumerate_def)
  have each: "training_execution (steps ! k) (k, batches ! k)" if "k < length batches" for k
    using list_all2_nthD2 [OF run(3), of k] that by (simp add: py_enumerate_def)
  have fed: "feed_Hin (run_feed (steps ! k)) =
               (if k = 0 then np_zeros2 BATCHSIZE (RNN_CELLSIZE * NLAYERS) else val_H (run_values (steps ! (k - 1))))"
    if "k < length batches" for k
    using state_threaded_nth [OF run(5), of k] that len by simp
  have final: "train_H st = (if batches = [] then np_zeros2 BATCHSIZE (RNN_CELLSIZE * NLAYERS) else val_H (run_values (last steps)))"
    using run(6) len by auto
  have "training_loop tf batches sess = (st, sess')"
    using run(1) by (simp add: training_loop_def)
  with run(2,4) len each fed final show "\<exists>st sess' steps.
      training_loop tf batches sess = (st, sess') \<and>
      executions sess' = executions sess @ steps \<and>
      length steps = length batches \<and>
      library_trace tf (variables sess) steps (variables sess') \<and>
      train_H st = (if batches = [] then np_zeros2 BATCHSIZE (RNN_CELLSIZE * NLAYERS) else val_H (run_values (last steps))) \<and>
      (\<forall>k < length batches.
         run_fetches (steps ! k) =
           [Fetch_tensor Yout, Fetch_tensor H, Fetch_tensor loss, Fetch_op train_op] \<and>
         feed_samples (run_feed (steps ! k)) = np_expand_dims_2 (fst (batches ! k)) \<and>
         feed_labels (run_feed (steps ! k)) = Some (np_expand_dims_2 (fst (snd (batches ! k)))) \<and>
         feed_dropout_pkeep (run_feed (steps ! k)) = DROPOUT_PKEEP \<and>
         feed_Hin (run_feed (steps ! k)) =
           (if k = 0 then np_zeros2 BATCHSIZE (RNN_CELLSIZE * NLAYERS) else val_H (run_values (steps ! (k - 1)))))"
    by (intro exI [of _ st] exI [of _ sess'] exI [of _ steps]) (simp add: training_execution_def)
qed

theorem training_minimizes_mean_squared_error_witness:
  "train_op = Minimize (AdamOptimizer 0.01) loss \<and>
   (\<exists>Yr. loss = MeanSquaredError Yr labels \<and> Yout = SliceLastStep Yr) \<and>
   (\<exists>st sess'.
      training_loop counting_net [([[1, 2]], [[2, 3]], 0), ([[3, 4]], [[4, 5]], 0)]
        \<lparr>variables = 0, executions = []\<rparr> = (st, sess') \<and>
      variables sess' = 2 \<and>
      train_H st = [[1, 1]] \<and>
      map run_fetches (executions sess') =
        [[Fetch_tensor Yout, Fetch_tensor H, Fetch_tensor loss, Fetch_op train_op],
         [Fetch_tensor Yout, Fetch_tensor H, Fetch_tensor loss, Fetch_op train_op]] \<and>
      map (\<lambda>e. feed_labels (run_feed e)) (executions sess') =
        [Some [[[2], [3]]], Some [[[4], [5]]]] \<and>
      map (\<lambda>e. val_Yout (run_values e)) (executions sess') = [[[0]], [[1]]] \<and>
      feed_Hin (run_feed (executions sess' ! 1)) = [[0, 0]])"
proof -
  let ?s = "\<lparr>variables = 0 :: int, executions = [] :: int execution list\<rparr>"
  let ?batches = "[([[1, 2]], [[2, 3]], 0), ([[3, 4]], [[4, 5]], 0)] ::
                    (int list list \<times> int list list \<times> int) list"
  note inst = training_minimizes_mean_squared_error
      [where tf = counting_net and batches = ?batches and sess = ?s]
  from inst obtain st sess' steps where r:
    "training_loop counting_net ?batches ?s = (st, sess')"
    "executions sess' = executions ?s @ steps" "length steps = 2"
    "library_trace counting_net (variables ?s) steps (variables sess')"
    "train_H st = val_H (run_values (last steps))"
    "\<forall>k < length ?batches.
       run_fetches (steps ! k) =
         [Fetch_tensor Yout, Fetch_tensor H, Fetch_tensor loss, Fetch_op train_op] \<and>
       feed_labels (run_feed (steps ! k)) = Some (np_expand_dims_2 (fst (snd (?batches ! k)))) \<and>
       feed_Hin (run_feed (steps ! k)) =
         (if k = 0 then np_zeros2 BATCHSIZE (RNN_CELLSIZE * NLAYERS)
          else val_H (run_values (steps ! (k - 1))))"
    by auto
  from r(3) obtain a b where steps: "steps = [a, b]"
    by (auto simp: length_Suc_conv numeral_2_eq_2)
  have returned: "run_values a = \<lparr>val_Yout = [[0]], val_H = [[0, 0]], val_loss = 0\<rparr>"
    "run_values b = \<lparr>val_Yout = [[1]], val_H = [[1, 1]], val_loss = 0\<rparr>"
    "variables sess' = 2"
    using r(4) by (simp_all add: steps counting_net_def)
  have a: "run_fetches a = [Fetch_tensor Yout, Fetch_tensor H, Fetch_tensor loss, Fetch_op train_op]"
    "feed_labels (run_feed a) = Some [[[2], [3]]]"
    using r(6) [rule_format, of 0] by (simp_all add: steps np_expand_dims_2_def)
  have b: "run_fetches b = [Fetch_tensor Yout, Fetch_tensor H, Fetch_tensor loss, Fetch_op train_op]"
    "feed_labels (run_feed b) = Some [[[4], [5]]]"
    "feed_Hin (run_feed b) = [[0, 0]]"
    using r(6) [rule_format, of 1] returned(1) by (simp_all add: steps np_expand_dims_2_def)
  have "\<exists>st sess'.
      training_loop counting_net ?batches ?s = (st, sess') \<and>
      variables sess' = 2 \<and>
      train_H st = [[1, 1]] \<and>
      map run_fetches (executions sess') =
        [[Fetch_tensor Yout, Fetch_tensor H, Fetch_tensor loss, Fetch_op train_op],
         [Fetch_tensor Yout, Fetch_tensor H, Fetch_tensor loss, Fetch_op train_op]] \<and>
      map (\<lambda>e. feed_labels (run_feed e)) (executions sess') =
        [Some [[[2], [3]]], Some [[[4], [5]]]] \<and>
      map (\<lambda>e. val_Yout (run_values e)) (executions sess') = [[[0]], [[1]]] \<and>
      feed_Hin (run_feed (executions sess' ! 1)) = [[0, 0]]"
    using r(1,2,5) returned a b by (intro exI [of _ st] exI [of _ sess']) (simp add: steps)
  with inst show ?thesis by blast
qed

section \<open>Properties of the error metric\<close>

lemma np_broadcast2_aligned:
  "length xs = length ys \<Longrightarrow>
   np_broadcast2 f xs ys = Inr (map (\<lambda>i. f (xs ! i) (ys ! i)) [0..<length xs])"
  by (auto simp: np_broadcast2_def intro!: nth_equalityI)

lemma rmse_of_aligned:
  assumes "length xs = length ys"
  shows "(case np_broadcast2 (np_subtract lib) xs ys of
            Inl e \<Rightarrow> Inl e
          | Inr diff \<Rightarrow> math_sqrt lib (np_mean lib (map (np_square lib) diff))) =
         root_mean_square_error lib xs ys"
  unfolding np_broadcast2_aligned [OF assms] sum.case root_mean_square_error_def
  by (simp add: comp_def)

lemma rmse_windows:
  assumes "OFFSET + PRIMELEN + RMSELEN \<le> length data" and "RMSELEN \<le> length results"
  shows "rmse lib data results =
           root_mean_square_error lib
             (map (\<lambda>i. data ! (OFFSET + PRIMELEN + i)) [0..<RMSELEN])
             (map (\<lambda>i. results ! i) [0..<RMSELEN])"
proof -
  have truth: "py_slice data (OFFSET + PRIMELEN) (OFFSET + PRIMELEN + RMSELEN) =
                 map (\<lambda>i. data ! (OFFSET + PRIMELEN + i)) [0..<RMSELEN]"
    using assms(1) by (intro nth_equalityI) (simp_all add: py_slice_def)
  have predicted: "py_slice results 0 RMSELEN = map (\<lambda>i. results ! i) [0..<RMSELEN]"
    using assms(2) by (intro nth_equalityI) (simp_all add: py_slice_def)
  show ?thesis
    unfolding rmse_def truth predicted
    by (rule rmse_of_aligned) simp
qed

text \<open>
  The cell as a whole: the predictions compared are the \<open>RUNLEN\<close> values that
  \<^verbatim>\<open>prediction_run\<close> returns, which are enough.
\<close>

lemma forecast_reports_rmse:
  assumes "yout_shape_contract tf" and "OFFSET + PRIMELEN + RMSELEN \<le> length data"
  shows "\<exists>results sess'.
           prediction_run tf sess (py_slice data OFFSET (OFFSET + PRIMELEN)) (int RUNLEN) =
             Inr (results, sess') \<and>
           length results = RUNLEN \<and>
           forecast tf lib sess data =
             (case root_mean_square_error lib
                     (map (\<lambda>i. data ! (OFFSET + PRIMELEN + i)) [0..<RMSELEN])
                     (map (\<lambda>i. results ! i) [0..<RMSELEN]) of
                Inl e \<Rightarrow> Inl e
              | Inr r \<Rightarrow> Inr (r, results, sess'))"
proof -
  from prediction_run_executions [OF assms(1), of sess "py_slice data OFFSET (OFFSET + PRIMELEN)" "int RUNLEN"]
  obtain results sess' where run:
    "prediction_run tf sess (py_slice data OFFSET (OFFSET + PRIMELEN)) (int RUNLEN) = Inr (results, sess')"
    "length results = nat (int RUNLEN)"
    by blast
  then have "RMSELEN \<le> length results"
    by (simp add: RMSELEN_def RUNLEN_def)
  from rmse_windows [OF assms(2) this, of lib] run show ?thesis
    by (simp add: forecast_def)
qed

text \<open>
  Claim C3. With data reaching to the end of the compared window and at least \<open>RMSELEN\<close>
  predictions (the notebook has 131072 data points and \<open>RUNLEN = 512\<close> predictions), the
  value computed is the root-mean-square error of the \<open>RMSELEN = 128\<close> data points
  that follow the priming window, \<open>data[276], ..., data[403]\<close>, against the first 128
  predictions, paired in order: the library's square root of the library's mean of the
  128 squared differences \<open>(data[276 + i] - results[i])**2\<close>. The four operations are
  the floating-point ones of the library, whatever they round to.
\<close>

theorem rmse_is_root_mean_square_error:
  assumes "OFFSET + PRIMELEN + RMSELEN \<le> length data" and "RMSELEN \<le> length results"
  shows "rmse lib data results =
           root_mean_square_error lib
             (map (\<lambda>i. data ! (OFFSET + PRIMELEN + i)) [0..<RMSELEN])
             (map (\<lambda>i. results ! i) [0..<RMSELEN]) \<and>
         rmse lib data results =
           math_sqrt lib
             (np_mean lib
                (map (\<lambda>i. np_square lib
                             (np_subtract lib (data ! (OFFSET + PRIMELEN + i)) (results ! i)))
                   [0..<RMSELEN])) \<and>
         RMSELEN = 128 \<and> OFFSET + PRIMELEN = 276"
proof -
  have paired: "map (\<lambda>i. np_square lib
                    (np_subtract lib
                       (map (\<lambda>i. data ! (OFFSET + PRIMELEN + i)) [0..<RMSELEN] ! i)
                       (map (\<lambda>i. results ! i) [0..<RMSELEN] ! i)))
          [0..<RMSELEN] =
        map (\<lambda>i. np_square lib
                    (np_subtract lib (data ! (OFFSET + PRIMELEN + i)) (results ! i)))
          [0..<RMSELEN]"
    by (rule map_cong) simp_all
  have "root_mean_square_error lib
          (map (\<lambda>i. data ! (OFFSET + PRIMELEN + i)) [0..<RMSELEN])
          (map (\<lambda>i. results ! i) [0..<RMSELEN]) =
        math_sqrt lib
          (np_mean lib
             (map (\<lambda>i. np_square lib
                          (np_subtract lib (data ! (OFFSET + PRIMELEN + i)) (results ! i)))
                [0..<RMSELEN]))"
    unfolding root_mean_square_error_def
    by (simp only: length_map length_upt minus_nat.diff_0 paired)
  with rmse_windows [OF assms, of lib] show ?thesis
    by (simp add: RMSELEN_def OFFSET_def PRIMELEN_def)
qed

theorem rmse_is_root_mean_square_error_witness:
  "OFFSET + PRIMELEN + RMSELEN \<le> length (replicate 404 (3 :: real)) \<and>
   RMSELEN \<le> length (replicate 128 (1 :: real)) \<and>
   rmse exact_arithmetic (replicate 404 3) (replicate 128 1) = Inr 2"
proof -
  have a: "OFFSET + PRIMELEN + RMSELEN \<le> length (replicate 404 (3 :: real))"
    by (simp add: OFFSET_def PRIMELEN_def RMSELEN_def)
  have b: "RMSELEN \<le> length (replicate 128 (1 :: real))"
    by (simp add: RMSELEN_def)
  have squares:
    "map (\<lambda>i. np_square exact_arithmetic
                 (np_subtract exact_arithmetic (replicate 404 (3 :: real) ! (OFFSET + PRIMELEN + i))
                    (replicate 128 1 ! i))) [0..<RMSELEN] =
     replicate RMSELEN 4"
    by (intro nth_equalityI)
       (simp_all add: exact_arithmetic_def OFFSET_def PRIMELEN_def RMSELEN_def)
  from rmse_is_root_mean_square_error [OF a b, of exact_arithmetic, THEN conjunct2, THEN conjunct1]
  have "rmse exact_arithmetic (replicate 404 3) (replicate 128 1) =
          math_sqrt exact_arithmetic (np_mean exact_arithmetic (replicate RMSELEN 4))"
    unfolding squares .
  also have "\<dots> = Inr (sqrt 4)"
    by (simp add: exact_arithmetic_def RMSELEN_def sum_list_replicate)
  also have "sqrt 4 = (2 :: real)"
    using real_sqrt_abs [of 2] by simp
  finally show ?thesis using a b by simp
qed

end
